theory Spec2Isabelle
  imports Complex_Main "HOL-Library.AList" "HOL-Library.Multiset"
begin

section \<open>The signaling server: data model\<close>

text \<open>
  The two server files (\<^verbatim>\<open>src/unnamed/part_000\<close>, CommonJS, and
  \<^verbatim>\<open>src/unnamed/part_001\<close>, ES modules) keep the same state: the global
  \<^verbatim>\<open>rooms\<close>, a JavaScript \<^verbatim>\<open>Map\<close> from room id to
  \<^verbatim>\<open>{ users: Map, peersCount }\<close>, and, inside socket.io, the set
  \<^verbatim>\<open>socket.rooms\<close> of every connected socket.

  A JavaScript \<^verbatim>\<open>Map\<close> iterates in insertion order, \<^verbatim>\<open>set\<close> on a key that
  is present keeps its position, and \<^verbatim>\<open>delete\<close> removes the entry. It is modelled
  as an association list in iteration order.
\<close>

type_synonym socket_id = string
type_synonym room_id = string
type_synonym sdp = string

definition Map_has :: "'k \<Rightarrow> ('k \<times> 'v) list \<Rightarrow> bool" where
  "Map_has k m = (map_of m k \<noteq> None)"

definition Map_get :: "'k \<Rightarrow> ('k \<times> 'v) list \<Rightarrow> 'v option" where
  "Map_get k m = map_of m k"

definition Map_set :: "'k \<Rightarrow> 'v \<Rightarrow> ('k \<times> 'v) list \<Rightarrow> ('k \<times> 'v) list" where
  "Map_set k v m = AList.update k v m"

definition Map_delete :: "'k \<Rightarrow> ('k \<times> 'v) list \<Rightarrow> ('k \<times> 'v) list" where
  "Map_delete k m = AList.delete k m"

definition Map_size :: "('k \<times> 'v) list \<Rightarrow> nat" where
  "Map_size m = length m"

record user =
  username :: string
  isHost :: bool
  joinedAt :: nat

record room =
  users :: "(socket_id \<times> user) list"
  peersCount :: nat

text \<open>
  \<^verbatim>\<open>sockets\<close> is socket.io's side of the state: the connected sockets, each with its
  \<^verbatim>\<open>socket.rooms\<close>. A socket is put into the room named by its own id when it connects.
\<close>

record server =
  rooms :: "(room_id \<times> room) list"
  sockets :: "(socket_id \<times> room_id list) list"

definition init_server :: server where
  "init_server = \<lparr>rooms = [], sockets = []\<rparr>"

text \<open>
  What a handler sends. The addressing is the one of the call:
  \<^verbatim>\<open>socket.emit\<close> (to the socket itself), \<^verbatim>\<open>socket.to(room).emit\<close> (to the room,
  the sender left out) and \<^verbatim>\<open>io.to(id).emit\<close>.
\<close>

datatype target =
  SocketEmit socket_id
| SocketTo room_id socket_id
| IoTo room_id

datatype message =
  RoomJoined room_id nat bool
| PeerJoined socket_id nat string
| PeerLeft socket_id nat string
| ReadyToConnect
| OfferMsg sdp socket_id
| AnswerMsg sdp socket_id
| IceCandidateMsg sdp socket_id

type_synonym emission = "target \<times> message"

text \<open>
  The events a server receives. \<^verbatim>\<open>JoinRoom sid roomId isHost username rnd now\<close> carries,
  beside the payload, the two values the handler reads from its environment:
  \<^verbatim>\<open>rnd\<close> is \<^verbatim>\<open>Math.floor(Math.random() * 1000)\<close> and \<^verbatim>\<open>now\<close> is
  \<^verbatim>\<open>new Date()\<close>. A \<^verbatim>\<open>username\<close> of \<^verbatim>\<open>None\<close> is \<^verbatim>\<open>undefined\<close>.
\<close>

datatype event =
  Connection socket_id
| JoinRoom socket_id room_id bool "string option" nat nat
| Offer socket_id room_id sdp
| Answer socket_id room_id sdp
| IceCandidate socket_id room_id sdp
| LeaveRoom socket_id room_id
| Disconnect socket_id

section \<open>The signaling server: operations\<close>

subsection \<open>Helpers\<close>

definition digit_char :: "nat \<Rightarrow> char" where
  "digit_char d = ''0123456789'' ! d"

fun string_of_nat :: "nat \<Rightarrow> string" where
  "string_of_nat n =
     (if n < 10 then [digit_char n] else string_of_nat (n div 10) @ [digit_char (n mod 10)])"

text \<open>\<^verbatim>\<open>username || `User${...}`\<close>: \<^verbatim>\<open>undefined\<close> and the empty string are falsy.\<close>

definition username_or_default :: "string option \<Rightarrow> nat \<Rightarrow> string" where
  "username_or_default un rnd =
     (case un of
        None \<Rightarrow> ''User'' @ string_of_nat rnd
      | Some s \<Rightarrow> (if s = [] then ''User'' @ string_of_nat rnd else s))"

definition Set_add :: "'a \<Rightarrow> 'a list \<Rightarrow> 'a list" where
  "Set_add x xs = (if x \<in> set xs then xs else xs @ [x])"

definition Set_delete :: "'a \<Rightarrow> 'a list \<Rightarrow> 'a list" where
  "Set_delete x xs = filter (\<lambda>y. y \<noteq> x) xs"


definition socket_join :: "socket_id \<Rightarrow> room_id \<Rightarrow> (socket_id \<times> room_id list) list
    \<Rightarrow> (socket_id \<times> room_id list) list" where
  "socket_join sid r socks = AList.map_entry sid (Set_add r) socks"

definition socket_leave :: "socket_id \<Rightarrow> room_id \<Rightarrow> (socket_id \<times> room_id list) list
    \<Rightarrow> (socket_id \<times> room_id list) list" where
  "socket_leave sid r socks = AList.map_entry sid (Set_delete r) socks"

text \<open>
  \<^verbatim>\<open>getRoomInfo\<close> of part_000 and \<^verbatim>\<open>getOrCreateRoom\<close> of part_001: the room is
  created when absent. The result is the registry after the call and the room found.
\<close>

definition empty_room :: room where
  "empty_room = \<lparr>users = [], peersCount = 0\<rparr>"

definition getRoomInfo :: "room_id \<Rightarrow> (room_id \<times> room) list \<Rightarrow> (room_id \<times> room) list \<times> room" where
  "getRoomInfo roomId rs =
     (case Map_get roomId rs of
        None \<Rightarrow> (Map_set roomId empty_room rs, empty_room)
      | Some r \<Rightarrow> (rs, r))"

definition getOrCreateRoom :: "room_id \<Rightarrow> (room_id \<times> room) list \<Rightarrow> (room_id \<times> room) list \<times> room" where
  "getOrCreateRoom roomId rs = getRoomInfo roomId rs"

text \<open>\<^verbatim>\<open>getRoom\<close> of part_001: a plain lookup.\<close>

definition getRoom :: "room_id \<Rightarrow> (room_id \<times> room) list \<Rightarrow> room option" where
  "getRoom roomId rs = Map_get roomId rs"

subsection \<open>join-room (the same text in both files)\<close>

text \<open>
  \<^verbatim>\<open>[...room.users.entries()].find(([, user]) => user.isHost)?.[0]\<close>: the id of the
  first entry, in iteration order, whose user has \<^verbatim>\<open>isHost\<close> set.
\<close>

definition find_host :: "(socket_id \<times> user) list \<Rightarrow> socket_id option" where
  "find_host us = map_option fst (find (\<lambda>p. isHost (snd p)) us)"

text \<open>\<^verbatim>\<open>if (hostSocket) io.to(hostSocket).emit('ready-to-connect')\<close>; the empty string is falsy.\<close>

definition ready_emissions :: "room \<Rightarrow> emission list" where
  "ready_emissions r =
     (if peersCount r = 2 then
        (case find_host (users r) of
           None \<Rightarrow> []
         | Some hostSocket \<Rightarrow> (if hostSocket \<noteq> [] then [(IoTo hostSocket, ReadyToConnect)] else []))
      else [])"

definition join_room :: "socket_id \<Rightarrow> room_id \<Rightarrow> bool \<Rightarrow> string option \<Rightarrow> nat \<Rightarrow> nat
    \<Rightarrow> server \<Rightarrow> server \<times> emission list" where
  "join_room sid roomId host un rnd now st =
     (let socks1 = AList.map_entry sid (filter (\<lambda>r. r = sid)) (sockets st);
          socks2 = socket_join sid roomId socks1;
          (rs1, r) = getRoomInfo roomId (rooms st);
          u = \<lparr>username = username_or_default un rnd, isHost = host, joinedAt = now\<rparr>;
          us = Map_set sid u (users r);
          r' = \<lparr>users = us, peersCount = Map_size us\<rparr>;
          rs2 = Map_set roomId r' rs1
      in (\<lparr>rooms = rs2, sockets = socks2\<rparr>,
          [(SocketEmit sid, RoomJoined roomId (peersCount r') host),
           (SocketTo roomId sid, PeerJoined sid (peersCount r') (username u))]
          @ ready_emissions r'))"

subsection \<open>offer, answer, ice-candidate (the same in both files)\<close>

definition relay_offer :: "socket_id \<Rightarrow> room_id \<Rightarrow> sdp \<Rightarrow> server \<Rightarrow> server \<times> emission list" where
  "relay_offer sid roomId x st = (st, [(SocketTo roomId sid, OfferMsg x sid)])"

definition relay_answer :: "socket_id \<Rightarrow> room_id \<Rightarrow> sdp \<Rightarrow> server \<Rightarrow> server \<times> emission list" where
  "relay_answer sid roomId x st = (st, [(SocketTo roomId sid, AnswerMsg x sid)])"

definition relay_ice :: "socket_id \<Rightarrow> room_id \<Rightarrow> sdp \<Rightarrow> server \<Rightarrow> server \<times> emission list" where
  "relay_ice sid roomId x st = (st, [(SocketTo roomId sid, IceCandidateMsg x sid)])"

subsection \<open>disconnect (the same in both files)\<close>

text \<open>
  \<^verbatim>\<open>rooms.forEach((room, roomId) => ...)\<close> visits the entries in iteration order; the
  callback changes or deletes only the entry it is visiting, so the walk is a recursion
  over the entries. \<^verbatim>\<open>remove_user\<close> is the body of the \<^verbatim>\<open>if\<close>: the user is
  deleted and \<^verbatim>\<open>peersCount\<close> recomputed.
\<close>

definition remove_user :: "socket_id \<Rightarrow> room \<Rightarrow> room" where
  "remove_user sid r =
     (let us = Map_delete sid (users r) in \<lparr>users = us, peersCount = Map_size us\<rparr>)"

definition peer_left :: "socket_id \<Rightarrow> room_id \<Rightarrow> room \<Rightarrow> emission" where
  "peer_left sid roomId r =
     (SocketTo roomId sid,
      PeerLeft sid (peersCount (remove_user sid r))
        (case Map_get sid (users r) of None \<Rightarrow> [] | Some u \<Rightarrow> username u))"

fun disconnect_rooms :: "socket_id \<Rightarrow> (room_id \<times> room) list
    \<Rightarrow> (room_id \<times> room) list \<times> emission list" where
  "disconnect_rooms sid [] = ([], [])"
| "disconnect_rooms sid ((roomId, r) # rest) =
     (let (rest', out) = disconnect_rooms sid rest in
      if Map_has sid (users r) then
        (if peersCount (remove_user sid r) = 0 then rest'
         else (roomId, remove_user sid r) # rest',
         peer_left sid roomId r # out)
      else ((roomId, r) # rest', out))"

definition disconnect :: "socket_id \<Rightarrow> server \<Rightarrow> server \<times> emission list" where
  "disconnect sid st =
     (let (rs, out) = disconnect_rooms sid (rooms st) in (st\<lparr>rooms := rs\<rparr>, out))"

subsection \<open>leave-room: part_000\<close>

definition cjs_leave_room :: "socket_id \<Rightarrow> room_id \<Rightarrow> server \<Rightarrow> server \<times> emission list" where
  "cjs_leave_room sid roomId st =
     (let socks = socket_leave sid roomId (sockets st);
          (rs1, r) = getRoomInfo roomId (rooms st)
      in if Map_has sid (users r) then
           (\<lparr>rooms = Map_set roomId (remove_user sid r) rs1, sockets = socks\<rparr>,
            [peer_left sid roomId r])
         else (\<lparr>rooms = rs1, sockets = socks\<rparr>, []))"

subsection \<open>leave-room: part_001\<close>

definition esm_leave_room :: "socket_id \<Rightarrow> room_id \<Rightarrow> server \<Rightarrow> server \<times> emission list" where
  "esm_leave_room sid roomId st =
     (case getRoom roomId (rooms st) of
        None \<Rightarrow> (st, [])
      | Some r \<Rightarrow>
          (let socks = socket_leave sid roomId (sockets st) in
           if Map_has sid (users r) then
             (let rs1 = Map_set roomId (remove_user sid r) (rooms st);
                  rs2 = (if peersCount (remove_user sid r) = 0 then Map_delete roomId rs1 else rs1)
              in (\<lparr>rooms = rs2, sockets = socks\<rparr>, [peer_left sid roomId r]))
           else (\<lparr>rooms = rooms st, sockets = socks\<rparr>, [])))"

subsection \<open>The two servers\<close>

text \<open>
  Handlers are registered per connected socket: an event of a socket that is not
  connected reaches no handler. When \<^verbatim>\<open>disconnect\<close> fires, socket.io has already
  taken the socket out of all its rooms.
\<close>

definition connected :: "socket_id \<Rightarrow> server \<Rightarrow> bool" where
  "connected sid st = Map_has sid (sockets st)"

definition connection :: "socket_id \<Rightarrow> server \<Rightarrow> server \<times> emission list" where
  "connection sid st = (st\<lparr>sockets := Map_set sid [sid] (sockets st)\<rparr>, [])"

definition drop_socket :: "socket_id \<Rightarrow> server \<Rightarrow> server" where
  "drop_socket sid st = st\<lparr>sockets := Map_delete sid (sockets st)\<rparr>"

fun step :: "(socket_id \<Rightarrow> room_id \<Rightarrow> server \<Rightarrow> server \<times> emission list)
    \<Rightarrow> server \<Rightarrow> event \<Rightarrow> server \<times> emission list" where
  "step leave st (Connection sid) =
     (if connected sid st then (st, []) else connection sid st)"
| "step leave st (JoinRoom sid roomId host un rnd now) =
     (if connected sid st then join_room sid roomId host un rnd now st else (st, []))"
| "step leave st (Offer sid roomId x) =
     (if connected sid st then relay_offer sid roomId x st else (st, []))"
| "step leave st (Answer sid roomId x) =
     (if connected sid st then relay_answer sid roomId x st else (st, []))"
| "step leave st (IceCandidate sid roomId x) =
     (if connected sid st then relay_ice sid roomId x st else (st, []))"
| "step leave st (LeaveRoom sid roomId) =
     (if connected sid st then leave sid roomId st else (st, []))"
| "step leave st (Disconnect sid) =
     (if connected sid st then disconnect sid (drop_socket sid st) else (st, []))"

definition cjs_step :: "server \<Rightarrow> event \<Rightarrow> server \<times> emission list" where
  "cjs_step = step cjs_leave_room"

definition esm_step :: "server \<Rightarrow> event \<Rightarrow> server \<times> emission list" where
  "esm_step = step esm_leave_room"

text \<open>A run: the state after the events and what each event made the server send.\<close>

fun run :: "(server \<Rightarrow> event \<Rightarrow> server \<times> emission list) \<Rightarrow> server \<Rightarrow> event list
    \<Rightarrow> server \<times> emission list list" where
  "run stp st [] = (st, [])"
| "run stp st (ev # evs) =
     (let (st1, out) = stp st ev; (st2, outs) = run stp st1 evs in (st2, out # outs))"

section \<open>The client: \<^verbatim>\<open>src/src/lib/webrtc.ts\<close>\<close>

subsection \<open>Data model\<close>

text \<open>
  The values \<^verbatim>\<open>JSON.parse\<close> can return. A finite JavaScript number is a rational;
  an object is its list of own properties.
\<close>

datatype json =
  JNull
| JBool bool
| JNum rat
| JStr string
| JArr "json list"
| JObj "(string \<times> json) list"

datatype ready_state = RsConnecting | RsOpen | RsClosing | RsClosed

datatype pc_state = PcNew | PcConnecting | PcConnected | PcDisconnected | PcFailed | PcClosed

datatype status = StDisconnected | StConnecting | StConnected

text \<open>
  The fields of \<^verbatim>\<open>WebRTCManager\<close>. \<^verbatim>\<open>this_socket\<close>, \<^verbatim>\<open>this_peerConnection\<close> and
  \<^verbatim>\<open>this_callbacks\<close> say whether the field is set (not \<^verbatim>\<open>null\<close>);
  \<^verbatim>\<open>this_dataChannel\<close> is \<^verbatim>\<open>None\<close> for \<^verbatim>\<open>null\<close> and otherwise the channel's
  \<^verbatim>\<open>readyState\<close>.
\<close>

record client =
  this_socket :: bool
  this_peerConnection :: bool
  this_dataChannel :: "ready_state option"
  this_roomId :: string
  this_isHost :: bool
  this_callbacks :: bool
  this_username :: string
  this_peersCount :: int

text \<open>
  What a method or handler does to the outside: calls on the socket, on the peer
  connection, on the data channel and on the callbacks, and \<^verbatim>\<open>console.error\<close>.
  An SDP argument of \<^verbatim>\<open>None\<close> is \<^verbatim>\<open>undefined\<close>; the fields of \<^verbatim>\<open>OnMessage\<close> are
  \<^verbatim>\<open>message.text\<close>, \<^verbatim>\<open>message.sender\<close> and the argument of \<^verbatim>\<open>new Date\<close>.
\<close>

datatype 'w action =
  EmitJoinRoom string bool string
| EmitOffer string sdp
| EmitAnswer string "sdp option"
| EmitIceCandidate string sdp
| CreateDataChannel
| CreateOffer
| CreateAnswer
| SetLocalDescription sdp
| SetRemoteDescription sdp
| AddIceCandidate sdp
| Send 'w
| OnConnectionChange status int
| OnMessage "json option" "json option" "json option"
| OnPlayerSync "json option"
| CloseDataChannel
| ClosePeerConnection
| SocketDisconnect
| ConsoleError

text \<open>
  What reaches a client: method calls of the UI, socket events, peer-connection events
  and data-channel events. The events of the asynchronous handlers carry the outcomes of
  the calls the handler awaits: \<^verbatim>\<open>False\<close> or \<^verbatim>\<open>None\<close> is a rejected promise.
\<close>

datatype 'w client_event =
  Initialize
| SendMessage string string
| SyncPlayer string "(string \<times> json) list option"
| DisconnectCall
| SocketConnectEv
| SocketDisconnectEv
| RoomJoinedEv int
| PeerJoinedEv int
| PeerLeftEv int
| OfferEv sdp bool "sdp option" bool
| AnswerEv sdp bool
| IceCandidateEv sdp bool
| ReadyToConnectEv "sdp option" bool
| DataChannelEv ready_state
| IceCandidateFound "sdp option"
| ConnectionStateChange pc_state
| ChannelOpen
| ChannelClose
| ChannelMessage 'w

subsection \<open>Operations\<close>

definition new_WebRTCManager :: "string \<Rightarrow> bool \<Rightarrow> nat \<Rightarrow> client" where
  "new_WebRTCManager roomId host rnd =
     \<lparr>this_socket = False, this_peerConnection = False, this_dataChannel = None,
      this_roomId = roomId, this_isHost = host, this_callbacks = False,
      this_username = ''User'' @ string_of_nat rnd, this_peersCount = 0\<rparr>"

definition callback :: "client \<Rightarrow> 'w action \<Rightarrow> 'w action list" where
  "callback c a = (if this_callbacks c then [a] else [])"

definition socket_emit :: "client \<Rightarrow> 'w action \<Rightarrow> 'w action list" where
  "socket_emit c a = (if this_socket c then [a] else [])"

definition initialize :: "client \<Rightarrow> client \<times> 'w action list" where
  "initialize c =
     (let c1 = c\<lparr>this_callbacks := True, this_socket := True, this_peerConnection := True\<rparr>;
          c2 = (if this_isHost c1 then c1\<lparr>this_dataChannel := Some RsConnecting\<rparr> else c1)
      in (c2,
          (if this_isHost c1 then [CreateDataChannel] else [])
          @ [EmitJoinRoom (this_roomId c2) (this_isHost c2) (this_username c2)]))"

text \<open>\<^verbatim>\<open>message.type\<close> and the like: a property read of a parsed value that is not \<^verbatim>\<open>null\<close>.\<close>

fun get_field :: "string \<Rightarrow> json \<Rightarrow> json option" where
  "get_field k (JObj fs) = map_of fs k"
| "get_field k v = None"

text \<open>\<^verbatim>\<open>{ action, ...data }\<close>: the own properties of \<^verbatim>\<open>data\<close> are set one by one.\<close>

definition spread :: "(string \<times> json) list \<Rightarrow> (string \<times> json) list option \<Rightarrow> (string \<times> json) list" where
  "spread obj src =
     (case src of None \<Rightarrow> obj | Some fs \<Rightarrow> fold (\<lambda>p. AList.update (fst p) (snd p)) fs obj)"

definition chat_message :: "string \<Rightarrow> string \<Rightarrow> string \<Rightarrow> json" where
  "chat_message text sender ts =
     JObj [(''type'', JStr ''chat''), (''text'', JStr text), (''sender'', JStr sender),
           (''timestamp'', JStr ts)]"

definition sync_message :: "string \<Rightarrow> (string \<times> json) list option \<Rightarrow> json" where
  "sync_message act d =
     JObj [(''type'', JStr ''player-sync''), (''data'', JObj (spread [(''action'', JStr act)] d))]"

text \<open>
  \<^verbatim>\<open>sendMessage(text)\<close>; \<^verbatim>\<open>ts\<close> is what \<^verbatim>\<open>new Date().toISOString()\<close> returns at the
  call, and \<^verbatim>\<open>stringify\<close> is \<^verbatim>\<open>JSON.stringify\<close>.
\<close>

definition sendMessage :: "(json \<Rightarrow> 'w) \<Rightarrow> client \<Rightarrow> string \<Rightarrow> string \<Rightarrow> client \<times> 'w action list" where
  "sendMessage stringify c text ts =
     (if this_dataChannel c = Some RsOpen
      then (c, [Send (stringify (chat_message text (this_username c) ts))])
      else (c, []))"

definition syncPlayer :: "(json \<Rightarrow> 'w) \<Rightarrow> client \<Rightarrow> string \<Rightarrow> (string \<times> json) list option
    \<Rightarrow> client \<times> 'w action list" where
  "syncPlayer stringify c act d =
     (if this_dataChannel c = Some RsOpen
      then (c, [Send (stringify (sync_message act d))])
      else (c, []))"

definition client_disconnect :: "client \<Rightarrow> client \<times> 'w action list" where
  "client_disconnect c =
     (c\<lparr>this_dataChannel :=
          map_option (\<lambda>rs. if rs = RsClosed then RsClosed else RsClosing) (this_dataChannel c)\<rparr>,
      (if this_dataChannel c \<noteq> None then [CloseDataChannel] else [])
      @ (if this_peerConnection c then [ClosePeerConnection] else [])
      @ (if this_socket c then [SocketDisconnect] else [])
      @ callback c (OnConnectionChange StDisconnected 0))"

text \<open>The handlers of \<^verbatim>\<open>setupDataChannel\<close>; \<^verbatim>\<open>parse\<close> is \<^verbatim>\<open>JSON.parse\<close>, \<^verbatim>\<open>None\<close> when it throws.\<close>

definition dc_onopen :: "client \<Rightarrow> client \<times> 'w action list" where
  "dc_onopen c = (c, callback c (OnConnectionChange StConnected (this_peersCount c)))"

definition dc_onclose :: "client \<Rightarrow> client \<times> 'w action list" where
  "dc_onclose c = (c, callback c (OnConnectionChange StDisconnected 0))"

definition dc_onmessage :: "('w \<Rightarrow> json option) \<Rightarrow> client \<Rightarrow> 'w \<Rightarrow> client \<times> 'w action list" where
  "dc_onmessage parse c w =
     (case parse w of
        None \<Rightarrow> (c, [ConsoleError])
      | Some JNull \<Rightarrow> (c, [ConsoleError])
      | Some m \<Rightarrow>
          (if get_field ''type'' m = Some (JStr ''chat'') then
             (c, callback c (OnMessage (get_field ''text'' m) (get_field ''sender'' m)
                                (get_field ''timestamp'' m)))
           else if get_field ''type'' m = Some (JStr ''player-sync'') then
             (c, callback c (OnPlayerSync (get_field ''data'' m)))
           else (c, [])))"

text \<open>The handlers of \<^verbatim>\<open>initialize\<close>.\<close>

definition on_connect :: "client \<Rightarrow> client \<times> 'w action list" where
  "on_connect c = (c, callback c (OnConnectionChange StConnecting 0))"

definition on_disconnect :: "client \<Rightarrow> client \<times> 'w action list" where
  "on_disconnect c = (c, callback c (OnConnectionChange StDisconnected 0))"

definition ondatachannel :: "client \<Rightarrow> ready_state \<Rightarrow> client \<times> 'w action list" where
  "ondatachannel c rs = (c\<lparr>this_dataChannel := Some rs\<rparr>, [])"

definition onicecandidate :: "client \<Rightarrow> sdp option \<Rightarrow> client \<times> 'w action list" where
  "onicecandidate c cand =
     (case cand of
        None \<Rightarrow> (c, [])
      | Some x \<Rightarrow> (c, socket_emit c (EmitIceCandidate (this_roomId c) x)))"

definition onconnectionstatechange :: "client \<Rightarrow> pc_state \<Rightarrow> client \<times> 'w action list" where
  "onconnectionstatechange c s =
     (if s = PcConnected then (c, callback c (OnConnectionChange StConnected (this_peersCount c)))
      else if s = PcDisconnected \<or> s = PcFailed
      then (c, callback c (OnConnectionChange StDisconnected 0))
      else (c, []))"

text \<open>The handlers of \<^verbatim>\<open>setupSignalingHandlers\<close>.\<close>

definition on_room_joined :: "client \<Rightarrow> int \<Rightarrow> client \<times> 'w action list" where
  "on_room_joined c n = (c\<lparr>this_peersCount := n - 1\<rparr>, [])"

definition on_peer_joined :: "client \<Rightarrow> int \<Rightarrow> client \<times> 'w action list" where
  "on_peer_joined c n =
     (let c' = c\<lparr>this_peersCount := n - 1\<rparr>
      in (c', callback c' (OnConnectionChange StConnecting (this_peersCount c'))))"

definition on_peer_left :: "client \<Rightarrow> int \<Rightarrow> client \<times> 'w action list" where
  "on_peer_left c n =
     (let c' = c\<lparr>this_peersCount := max 0 (n - 1)\<rparr>
      in (c', callback c'
                (OnConnectionChange (if this_peersCount c' > 0 then StConnected else StDisconnected)
                   (this_peersCount c'))))"

definition on_offer :: "client \<Rightarrow> sdp \<Rightarrow> bool \<Rightarrow> sdp option \<Rightarrow> bool \<Rightarrow> client \<times> 'w action list" where
  "on_offer c offer remote_ok answer local_ok =
     (if this_peerConnection c then
        (if \<not> remote_ok then (c, [SetRemoteDescription offer, ConsoleError])
         else
           (case answer of
              None \<Rightarrow> (c, [SetRemoteDescription offer, CreateAnswer, ConsoleError])
            | Some a \<Rightarrow>
                (if \<not> local_ok
                 then (c, [SetRemoteDescription offer, CreateAnswer, SetLocalDescription a,
                           ConsoleError])
                 else (c, [SetRemoteDescription offer, CreateAnswer, SetLocalDescription a]
                          @ socket_emit c (EmitAnswer (this_roomId c) (Some a))))))
      else (c, socket_emit c (EmitAnswer (this_roomId c) None)))"

definition on_answer :: "client \<Rightarrow> sdp \<Rightarrow> bool \<Rightarrow> client \<times> 'w action list" where
  "on_answer c answer remote_ok =
     (if this_peerConnection c then
        (if remote_ok then (c, [SetRemoteDescription answer])
         else (c, [SetRemoteDescription answer, ConsoleError]))
      else (c, []))"

definition on_ice_candidate :: "client \<Rightarrow> sdp \<Rightarrow> bool \<Rightarrow> client \<times> 'w action list" where
  "on_ice_candidate c cand ok =
     (if this_peerConnection c then
        (if ok then (c, [AddIceCandidate cand]) else (c, [AddIceCandidate cand, ConsoleError]))
      else (c, []))"

definition on_ready_to_connect :: "client \<Rightarrow> sdp option \<Rightarrow> bool \<Rightarrow> client \<times> 'w action list" where
  "on_ready_to_connect c offer local_ok =
     (if this_isHost c \<and> this_peerConnection c then
        (case offer of
           None \<Rightarrow> (c, [CreateOffer, ConsoleError])
         | Some x \<Rightarrow>
             (if \<not> local_ok then (c, [CreateOffer, SetLocalDescription x, ConsoleError])
              else (c, [CreateOffer, SetLocalDescription x]
                       @ socket_emit c (EmitOffer (this_roomId c) x))))
      else (c, []))"

text \<open>
  One step of a client. The socket handlers exist once \<^verbatim>\<open>initialize\<close> has run
  (\<^verbatim>\<open>this_socket\<close>), the peer-connection handlers once the peer connection exists, the
  data-channel handlers once the channel does.
\<close>

fun client_step :: "(json \<Rightarrow> 'w) \<Rightarrow> ('w \<Rightarrow> json option) \<Rightarrow> client \<Rightarrow> 'w client_event
    \<Rightarrow> client \<times> 'w action list" where
  "client_step stringify parse c Initialize = initialize c"
| "client_step stringify parse c (SendMessage text ts) = sendMessage stringify c text ts"
| "client_step stringify parse c (SyncPlayer act d) = syncPlayer stringify c act d"
| "client_step stringify parse c DisconnectCall = client_disconnect c"
| "client_step stringify parse c SocketConnectEv =
     (if this_socket c then on_connect c else (c, []))"
| "client_step stringify parse c SocketDisconnectEv =
     (if this_socket c then on_disconnect c else (c, []))"
| "client_step stringify parse c (RoomJoinedEv n) =
     (if this_socket c then on_room_joined c n else (c, []))"
| "client_step stringify parse c (PeerJoinedEv n) =
     (if this_socket c then on_peer_joined c n else (c, []))"
| "client_step stringify parse c (PeerLeftEv n) =
     (if this_socket c then on_peer_left c n else (c, []))"
| "client_step stringify parse c (OfferEv offer remote_ok answer local_ok) =
     (if this_socket c then on_offer c offer remote_ok answer local_ok else (c, []))"
| "client_step stringify parse c (AnswerEv answer remote_ok) =
     (if this_socket c then on_answer c answer remote_ok else (c, []))"
| "client_step stringify parse c (IceCandidateEv cand ok) =
     (if this_socket c then on_ice_candidate c cand ok else (c, []))"
| "client_step stringify parse c (ReadyToConnectEv offer local_ok) =
     (if this_socket c then on_ready_to_connect c offer local_ok else (c, []))"
| "client_step stringify parse c (DataChannelEv rs) =
     (if this_peerConnection c \<and> \<not> this_isHost c then ondatachannel c rs else (c, []))"
| "client_step stringify parse c (IceCandidateFound cand) =
     (if this_peerConnection c then onicecandidate c cand else (c, []))"
| "client_step stringify parse c (ConnectionStateChange s) =
     (if this_peerConnection c then onconnectionstatechange c s else (c, []))"
| "client_step stringify parse c ChannelOpen =
     (if this_dataChannel c \<noteq> None then dc_onopen (c\<lparr>this_dataChannel := Some RsOpen\<rparr>)
      else (c, []))"
| "client_step stringify parse c ChannelClose =
     (if this_dataChannel c \<noteq> None then dc_onclose (c\<lparr>this_dataChannel := Some RsClosed\<rparr>)
      else (c, []))"
| "client_step stringify parse c (ChannelMessage w) =
     (if this_dataChannel c \<noteq> None then dc_onmessage parse c w else (c, []))"

section \<open>Notions used in the statements\<close>


text \<open>
  Two clients of room \<^verbatim>\<open>abc123\<close> whose data channel is open: the host and the guest
  after \<^verbatim>\<open>initialize\<close>, the \<^verbatim>\<open>peer-joined\<close> or \<^verbatim>\<open>room-joined\<close> event and the opening
  of the channel.
\<close>

definition host_client :: client where
  "host_client =
     \<lparr>this_socket = True, this_peerConnection = True, this_dataChannel = Some RsOpen,
      this_roomId = ''abc123'', this_isHost = True, this_callbacks = True,
      this_username = ''User7'', this_peersCount = 1\<rparr>"

definition guest_client :: client where
  "guest_client =
     \<lparr>this_socket = True, this_peerConnection = True, this_dataChannel = Some RsOpen,
      this_roomId = ''abc123'', this_isHost = False, this_callbacks = True,
      this_username = ''User42'', this_peersCount = 1\<rparr>"

text \<open>A registry in which socket \<^verbatim>\<open>s1\<close> is a participant of \<^verbatim>\<open>r1\<close> and \<^verbatim>\<open>r2\<close>.\<close>

definition two_rooms :: server where
  "two_rooms =
     \<lparr>rooms =
        [(''r1'', \<lparr>users = [(''s1'', \<lparr>username = ''Alice'', isHost = True, joinedAt = 0\<rparr>),
                            (''s2'', \<lparr>username = ''Bob'', isHost = False, joinedAt = 1\<rparr>)],
                  peersCount = 2\<rparr>),
         (''r2'', \<lparr>users = [(''s1'', \<lparr>username = ''Alice'', isHost = True, joinedAt = 2\<rparr>)],
                  peersCount = 1\<rparr>),
         (''r3'', \<lparr>users = [(''s3'', \<lparr>username = ''Carol'', isHost = True, joinedAt = 3\<rparr>)],
                  peersCount = 1\<rparr>)],
      sockets = [(''s2'', [''s2'', ''r1'']), (''s3'', [''s3'', ''r3''])]\<rparr>"


text \<open>The two halves of the registry invariant.\<close>

definition counts_ok :: "(room_id \<times> room) list \<Rightarrow> bool" where
  "counts_ok rs = list_all (\<lambda>p. peersCount (snd p) = Map_size (users (snd p))) rs"

definition no_empty_room :: "(room_id \<times> room) list \<Rightarrow> bool" where
  "no_empty_room rs = list_all (\<lambda>p. peersCount (snd p) \<noteq> 0) rs"

subsection \<open>Comparing the two servers\<close>













section \<open>Properties of the signaling server\<close>

lemmas server_defs =
  cjs_step_def esm_step_def init_server_def connected_def connection_def drop_socket_def
  join_room_def cjs_leave_room_def esm_leave_room_def disconnect_def
  relay_offer_def relay_answer_def relay_ice_def
  getRoomInfo_def getRoom_def empty_room_def remove_user_def peer_left_def
  ready_emissions_def find_host_def username_or_default_def
  socket_join_def socket_leave_def Set_add_def Set_delete_def
  Map_has_def Map_get_def Map_set_def Map_delete_def Map_size_def

subsection \<open>The registry after leave-room\<close>

text \<open>
  Claim C1 (registry invariant: after every join-room, leave-room and disconnect, every
  registered room has \<^verbatim>\<open>peersCount\<close> equal to the size of its participant map, and no
  room with \<^verbatim>\<open>peersCount = 0\<close> stays registered). The server of part_000 breaks the
  second half: its \<^verbatim>\<open>leave-room\<close> handler never deletes a room. When the only
  participant of room \<^verbatim>\<open>abc123\<close> leaves, the room stays registered with no users and
  \<^verbatim>\<open>peersCount = 0\<close>.
\<close>

theorem cjs_leave_room_keeps_empty_room:
  "fst (run cjs_step init_server
     [Connection ''s1'',
      JoinRoom ''s1'' ''abc123'' True (Some ''Alice'') 0 0,
      LeaveRoom ''s1'' ''abc123''])
   = \<lparr>rooms = [(''abc123'', \<lparr>users = [], peersCount = 0\<rparr>)],
      sockets = [(''s1'', [''s1''])]\<rparr>"
  by (simp add: server_defs)

text \<open>
  The first half of the invariant holds of both servers, and the server of part_001
  satisfies the whole of it, in every state it reaches.
\<close>

lemma list_all_update:
  "list_all P xs \<Longrightarrow> P (k, v) \<Longrightarrow> list_all P (AList.update k v xs)"
  by (induction xs) auto

lemma list_all_delete: "list_all P xs \<Longrightarrow> list_all P (AList.delete k xs)"
  by (induction xs) auto

lemma list_all_disconnect_rooms:
  assumes "list_all P rs"
    and "\<And>k r. P (k, r) \<Longrightarrow> Map_has sid (users r) \<Longrightarrow> peersCount (remove_user sid r) \<noteq> 0
           \<Longrightarrow> P (k, remove_user sid r)"
  shows "list_all P (fst (disconnect_rooms sid rs))"
  using assms by (induction rs) (auto simp: split_beta)

lemma counts_remove_user: "peersCount (remove_user sid r) = Map_size (users (remove_user sid r))"
  by (simp add: remove_user_def Let_def)

lemma Map_size_set: "Map_size (Map_set k v m) \<noteq> 0"
  by (cases m) (auto simp: Map_size_def Map_set_def)

lemma join_room_counts:
  "counts_ok (rooms st) \<Longrightarrow> counts_ok (rooms (fst (join_room sid roomId host un rnd now st)))"
  by (auto simp: counts_ok_def join_room_def getRoomInfo_def Map_get_def Map_set_def Let_def
        empty_room_def Map_size_def intro!: list_all_update split: option.splits)

lemma join_room_no_empty:
  "no_empty_room (rooms st) \<Longrightarrow> no_empty_room (rooms (fst (join_room sid roomId host un rnd now st)))"
  using Map_size_set
  by (auto simp: no_empty_room_def join_room_def getRoomInfo_def Map_get_def Let_def
        simp: Map_set_def[of roomId] intro!: list_all_update split: option.splits)

lemma cjs_leave_counts:
  "counts_ok (rooms st) \<Longrightarrow> counts_ok (rooms (fst (cjs_leave_room sid roomId st)))"
  by (auto simp: counts_ok_def cjs_leave_room_def getRoomInfo_def Map_get_def Map_set_def Let_def
        empty_room_def Map_size_def remove_user_def intro!: list_all_update split: option.splits)

lemma esm_leave_counts:
  "counts_ok (rooms st) \<Longrightarrow> counts_ok (rooms (fst (esm_leave_room sid roomId st)))"
  by (auto simp: counts_ok_def esm_leave_room_def getRoom_def Map_get_def Map_set_def Let_def
        Map_delete_def Map_size_def remove_user_def intro!: list_all_update list_all_delete
        split: option.splits)

lemma esm_leave_no_empty:
  "no_empty_room (rooms st) \<Longrightarrow> no_empty_room (rooms (fst (esm_leave_room sid roomId st)))"
  by (auto simp: no_empty_room_def esm_leave_room_def getRoom_def Map_get_def Map_set_def Let_def
        Map_delete_def delete_update_same intro!: list_all_update list_all_delete
        split: option.splits)

lemma disconnect_counts:
  "counts_ok (rooms st) \<Longrightarrow> counts_ok (rooms (fst (disconnect sid (drop_socket sid st))))"
  by (auto simp: counts_ok_def disconnect_def drop_socket_def split_beta counts_remove_user
        intro!: list_all_disconnect_rooms)

lemma disconnect_no_empty:
  "no_empty_room (rooms st) \<Longrightarrow> no_empty_room (rooms (fst (disconnect sid (drop_socket sid st))))"
  by (auto simp: no_empty_room_def disconnect_def drop_socket_def split_beta
        intro!: list_all_disconnect_rooms)

lemma cjs_step_counts: "counts_ok (rooms st) \<Longrightarrow> counts_ok (rooms (fst (cjs_step st ev)))"
  by (cases ev)
     (simp_all add: cjs_step_def join_room_counts cjs_leave_counts disconnect_counts
        relay_offer_def relay_answer_def relay_ice_def connection_def)

lemma esm_step_counts: "counts_ok (rooms st) \<Longrightarrow> counts_ok (rooms (fst (esm_step st ev)))"
  by (cases ev)
     (simp_all add: esm_step_def join_room_counts esm_leave_counts disconnect_counts
        relay_offer_def relay_answer_def relay_ice_def connection_def)

lemma esm_step_no_empty:
  "no_empty_room (rooms st) \<Longrightarrow> no_empty_room (rooms (fst (esm_step st ev)))"
  by (cases ev)
     (simp_all add: esm_step_def join_room_no_empty esm_leave_no_empty disconnect_no_empty
        relay_offer_def relay_answer_def relay_ice_def connection_def)

lemma cjs_run_counts:
  "counts_ok (rooms st) \<Longrightarrow> counts_ok (rooms (fst (run cjs_step st evs)))"
  by (induction evs arbitrary: st) (simp_all add: split_beta cjs_step_counts)

lemma esm_run_counts:
  "counts_ok (rooms st) \<Longrightarrow> counts_ok (rooms (fst (run esm_step st evs)))"
  by (induction evs arbitrary: st) (simp_all add: split_beta esm_step_counts)

lemma esm_run_no_empty:
  "no_empty_room (rooms st) \<Longrightarrow> no_empty_room (rooms (fst (run esm_step st evs)))"
  by (induction evs arbitrary: st) (simp_all add: split_beta esm_step_no_empty)

lemma esm_registry_invariant:
  "counts_ok (rooms (fst (run esm_step init_server evs)))
 \<and> no_empty_room (rooms (fst (run esm_step init_server evs)))"
proof -
  have "counts_ok (rooms init_server)" "no_empty_room (rooms init_server)"
    by (simp_all add: counts_ok_def no_empty_room_def init_server_def)
  then show ?thesis by (simp add: esm_run_counts esm_run_no_empty)
qed

lemma cjs_counts_invariant: "counts_ok (rooms (fst (run cjs_step init_server evs)))"
proof -
  have "counts_ok (rooms init_server)"
    by (simp add: counts_ok_def init_server_def)
  then show ?thesis by (rule cjs_run_counts)
qed

text \<open>
  Claim C5 (a \<^verbatim>\<open>leave-room\<close> for a participant that is not in the named room sends no
  \<^verbatim>\<open>peer-left\<close> and leaves the registry exactly as it was). The server of part_000 looks
  the room up with \<^verbatim>\<open>getRoomInfo\<close>, which creates it: a \<^verbatim>\<open>leave-room\<close> for a room
  that does not exist sends nothing, but registers that room, empty.
\<close>

theorem cjs_leave_room_creates_room:
  "cjs_leave_room ''s1'' ''nowhere'' \<lparr>rooms = [], sockets = [(''s1'', [''s1''])]\<rparr>
   = (\<lparr>rooms = [(''nowhere'', \<lparr>users = [], peersCount = 0\<rparr>)],
       sockets = [(''s1'', [''s1''])]\<rparr>, [])"
  by (simp add: server_defs)

text \<open>The handler of part_001 does leave the registry alone and sends nothing.\<close>

lemma esm_leave_room_absent:
  assumes "\<not> (\<exists>r. Map_get roomId (rooms st) = Some r \<and> Map_has sid (users r))"
  shows "rooms (fst (esm_leave_room sid roomId st)) = rooms st"
    and "snd (esm_leave_room sid roomId st) = []"
  using assms by (auto simp: esm_leave_room_def getRoom_def Let_def split: option.splits)

subsection \<open>Joining a second room\<close>

text \<open>
  Claim C3 (join removes the joining participant from every other room's participant map,
  so that a participant id is in the participant map of at most one room). Both servers
  leave the socket.io rooms of the socket but do not touch the other entries of
  \<^verbatim>\<open>rooms\<close>: after joining \<^verbatim>\<open>r1\<close> and then \<^verbatim>\<open>r2\<close>, socket \<^verbatim>\<open>s1\<close> is a participant
  of both, while \<^verbatim>\<open>socket.rooms\<close> holds \<^verbatim>\<open>r2\<close> only.
\<close>

theorem join_keeps_old_membership:
  "fst (run esm_step init_server
     [Connection ''s1'',
      JoinRoom ''s1'' ''r1'' True (Some ''Alice'') 0 0,
      JoinRoom ''s1'' ''r2'' True (Some ''Alice'') 0 1])
   = \<lparr>rooms =
        [(''r1'', \<lparr>users = [(''s1'', \<lparr>username = ''Alice'', isHost = True, joinedAt = 0\<rparr>)],
                  peersCount = 1\<rparr>),
         (''r2'', \<lparr>users = [(''s1'', \<lparr>username = ''Alice'', isHost = True, joinedAt = 1\<rparr>)],
                  peersCount = 1\<rparr>)],
      sockets = [(''s1'', [''s1'', ''r2''])]\<rparr>
  \<and> fst (run cjs_step init_server
     [Connection ''s1'',
      JoinRoom ''s1'' ''r1'' True (Some ''Alice'') 0 0,
      JoinRoom ''s1'' ''r2'' True (Some ''Alice'') 0 1])
   = \<lparr>rooms =
        [(''r1'', \<lparr>users = [(''s1'', \<lparr>username = ''Alice'', isHost = True, joinedAt = 0\<rparr>)],
                  peersCount = 1\<rparr>),
         (''r2'', \<lparr>users = [(''s1'', \<lparr>username = ''Alice'', isHost = True, joinedAt = 1\<rparr>)],
                  peersCount = 1\<rparr>)],
      sockets = [(''s1'', [''s1'', ''r2''])]\<rparr>"
  by (simp add: server_defs)

subsection \<open>Disconnect\<close>

lemma disconnect_rooms_out:
  "snd (disconnect_rooms sid rs)
     = map (\<lambda>p. peer_left sid (fst p) (snd p)) (filter (\<lambda>p. Map_has sid (users (snd p))) rs)"
  by (induction rs) (auto simp: split_beta)

lemma disconnect_rooms_rooms:
  "fst (disconnect_rooms sid rs)
     = map (\<lambda>p. if Map_has sid (users (snd p)) then (fst p, remove_user sid (snd p)) else p)
         (filter (\<lambda>p. \<not> (Map_has sid (users (snd p)) \<and> peersCount (remove_user sid (snd p)) = 0)) rs)"
  by (induction rs) (auto simp: split_beta)

lemma Map_has_delete: "\<not> Map_has k (Map_delete k m)"
  by (simp add: Map_has_def Map_delete_def delete_conv')

text \<open>
  Claim C4. The \<^verbatim>\<open>disconnect\<close> handler (the same in both files) sends one \<^verbatim>\<open>peer-left\<close>
  broadcast for each room whose participant map holds the socket, in registry order, with
  that room's new \<^verbatim>\<open>peersCount\<close> and the removed user's name; in the registry these
  rooms lose the socket, those left without participants are deleted, and every other room
  stays as it was. Afterwards no room holds the socket.
\<close>

theorem disconnect_removes_everywhere:
  "snd (disconnect sid st)
     = map (\<lambda>p. (SocketTo (fst p) sid,
                  PeerLeft sid (Map_size (Map_delete sid (users (snd p))))
                    (username (the (Map_get sid (users (snd p)))))))
         (filter (\<lambda>p. Map_has sid (users (snd p))) (rooms st))
 \<and> rooms (fst (disconnect sid st))
     = map (\<lambda>p. if Map_has sid (users (snd p))
                then (fst p, \<lparr>users = Map_delete sid (users (snd p)),
                              peersCount = Map_size (Map_delete sid (users (snd p)))\<rparr>)
                else p)
         (filter (\<lambda>p. \<not> (Map_has sid (users (snd p))
                          \<and> Map_size (Map_delete sid (users (snd p))) = 0)) (rooms st))
 \<and> sockets (fst (disconnect sid st)) = sockets st
 \<and> (\<forall>p \<in> set (rooms (fst (disconnect sid st))). \<not> Map_has sid (users (snd p)))"
proof -
  have out: "snd (disconnect sid st) = snd (disconnect_rooms sid (rooms st))"
    and rs: "rooms (fst (disconnect sid st)) = fst (disconnect_rooms sid (rooms st))"
    and socks: "sockets (fst (disconnect sid st)) = sockets st"
    by (simp_all add: disconnect_def split_beta)
  have pl: "Map_has sid (users r) \<Longrightarrow> peer_left sid roomId r
      = (SocketTo roomId sid, PeerLeft sid (Map_size (Map_delete sid (users r)))
           (username (the (Map_get sid (users r)))))" for roomId r
    by (auto simp: peer_left_def remove_user_def Map_has_def Map_get_def Let_def)
  have 1: "snd (disconnect sid st)
     = map (\<lambda>p. (SocketTo (fst p) sid,
                  PeerLeft sid (Map_size (Map_delete sid (users (snd p))))
                    (username (the (Map_get sid (users (snd p)))))))
         (filter (\<lambda>p. Map_has sid (users (snd p))) (rooms st))"
    unfolding out disconnect_rooms_out by (intro map_cong refl) (simp add: pl)
  have 2: "rooms (fst (disconnect sid st))
     = map (\<lambda>p. if Map_has sid (users (snd p))
                then (fst p, \<lparr>users = Map_delete sid (users (snd p)),
                              peersCount = Map_size (Map_delete sid (users (snd p)))\<rparr>)
                else p)
         (filter (\<lambda>p. \<not> (Map_has sid (users (snd p))
                          \<and> Map_size (Map_delete sid (users (snd p))) = 0)) (rooms st))"
    unfolding rs disconnect_rooms_rooms by (simp add: remove_user_def Let_def)
  have 3: "\<forall>p \<in> set (rooms (fst (disconnect sid st))). \<not> Map_has sid (users (snd p))"
    unfolding 2 by (auto simp: Map_has_delete)
  from 1 2 socks 3 show ?thesis by blast
qed

text \<open>
  The scenario of the spec: a socket that is in the participant maps of \<^verbatim>\<open>r1\<close> and
  \<^verbatim>\<open>r2\<close> disconnects. One \<^verbatim>\<open>peer-left\<close> goes to each of the two rooms, \<^verbatim>\<open>r2\<close> is
  deleted, \<^verbatim>\<open>r3\<close> is untouched.
\<close>

theorem disconnect_removes_everywhere_witness:
  "snd (disconnect ''s1'' two_rooms)
     = [(SocketTo ''r1'' ''s1'', PeerLeft ''s1'' 1 ''Alice''),
        (SocketTo ''r2'' ''s1'', PeerLeft ''s1'' 0 ''Alice'')]
 \<and> rooms (fst (disconnect ''s1'' two_rooms))
     = [(''r1'', \<lparr>users = [(''s2'', \<lparr>username = ''Bob'', isHost = False, joinedAt = 1\<rparr>)],
                 peersCount = 1\<rparr>),
        (''r3'', \<lparr>users = [(''s3'', \<lparr>username = ''Carol'', isHost = True, joinedAt = 3\<rparr>)],
                 peersCount = 1\<rparr>)]
 \<and> map (\<lambda>p. Map_has ''s1'' (users (snd p))) (rooms (fst (disconnect ''s1'' two_rooms)))
     = [False, False]"
  using disconnect_removes_everywhere [of "''s1''" two_rooms]
  by (simp add: two_rooms_def Map_has_def Map_get_def Map_delete_def Map_size_def)

subsection \<open>The ready-to-connect trigger\<close>








section \<open>The two servers compared\<close>






















































section \<open>Properties of the client\<close>

lemmas client_defs =
  initialize_def sendMessage_def syncPlayer_def client_disconnect_def
  dc_onopen_def dc_onclose_def dc_onmessage_def on_connect_def on_disconnect_def
  ondatachannel_def onicecandidate_def onconnectionstatechange_def
  on_room_joined_def on_peer_joined_def on_peer_left_def on_offer_def on_answer_def
  on_ice_candidate_def on_ready_to_connect_def callback_def socket_emit_def

text \<open>\<^verbatim>\<open>host_client\<close> and \<^verbatim>\<open>guest_client\<close> are states the class reaches.\<close>

lemma host_client_reachable:
  "fst (client_step id Some (fst (client_step id Some (fst (client_step id Some (new_WebRTCManager ''abc123'' True 7) Initialize)) (PeerJoinedEv 2))) ChannelOpen) = host_client"
  by (simp add: client_defs new_WebRTCManager_def host_client_def digit_char_def)

lemma guest_client_reachable:
  "fst (client_step id Some
     (fst (client_step id Some
        (fst (client_step id Some
           (fst (client_step id Some (new_WebRTCManager ''abc123'' False 42) Initialize))
           (RoomJoinedEv 2)))
        (DataChannelEv RsConnecting)))
     ChannelOpen) = guest_client"
  by (simp add: client_defs new_WebRTCManager_def guest_client_def digit_char_def)

subsection \<open>Sending on the data channel\<close>

text \<open>
  Claim C9. \<^verbatim>\<open>sendMessage\<close> and \<^verbatim>\<open>syncPlayer\<close> call \<^verbatim>\<open>dataChannel.send\<close> if and
  only if the data channel exists and its \<^verbatim>\<open>readyState\<close> is \<^verbatim>\<open>open\<close>; then they send
  one serialized envelope. In every other case they do nothing: the result is the
  unchanged client and no action.
\<close>

theorem send_only_when_open:
  "(\<exists>w. Send w \<in> set (snd (sendMessage stringify c text ts))) = (this_dataChannel c = Some RsOpen)
 \<and> (\<exists>w. Send w \<in> set (snd (syncPlayer stringify c act d))) = (this_dataChannel c = Some RsOpen)
 \<and> sendMessage stringify c text ts =
      (c, if this_dataChannel c = Some RsOpen
          then [Send (stringify (chat_message text (this_username c) ts))] else [])
 \<and> syncPlayer stringify c act d =
      (c, if this_dataChannel c = Some RsOpen
          then [Send (stringify (sync_message act d))] else [])"
  by (simp add: sendMessage_def syncPlayer_def)

text \<open>
  Claim C8. \<^verbatim>\<open>JSON.parse\<close> inverts \<^verbatim>\<open>JSON.stringify\<close>. When the sender's channel is
  open and the receiver has its callbacks, what \<^verbatim>\<open>sendMessage\<close> sends makes the
  receiver's \<^verbatim>\<open>onmessage\<close> handler call \<^verbatim>\<open>onMessage\<close> once, with the text that was
  sent, the sender's \<^verbatim>\<open>username\<close> and the time stamp.
\<close>

theorem chat_round_trip:
  assumes codec: "\<And>v. parse (stringify v) = Some v"
    and op: "this_dataChannel a = Some RsOpen"
    and cb: "this_callbacks b"
  shows "\<exists>w. snd (sendMessage stringify a text ts) = [Send w]
           \<and> snd (dc_onmessage parse b w)
               = [OnMessage (Some (JStr text)) (Some (JStr (this_username a))) (Some (JStr ts))]"
  using assms by (simp add: sendMessage_def dc_onmessage_def chat_message_def callback_def)

theorem chat_round_trip_witness:
  "(\<forall>v. Some (id v) = Some (v::json))
   \<and> this_dataChannel host_client = Some RsOpen \<and> this_callbacks guest_client
   \<and> snd (dc_onmessage Some guest_client
            (JObj [(''type'', JStr ''chat''), (''text'', JStr ''hi''), (''sender'', JStr ''User7''),
                   (''timestamp'', JStr ''2024-05-01T10:00:00.000Z'')]))
       = [OnMessage (Some (JStr ''hi'')) (Some (JStr ''User7''))
            (Some (JStr ''2024-05-01T10:00:00.000Z''))]"
  using chat_round_trip [of Some id host_client guest_client "''hi''" "''2024-05-01T10:00:00.000Z''"]
  by (simp add: host_client_def guest_client_def sendMessage_def chat_message_def)

subsection \<open>Offers\<close>

text \<open>
  Claim C6. Whatever reaches a client, it calls \<^verbatim>\<open>createOffer\<close> or emits \<^verbatim>\<open>offer\<close>
  only while handling \<^verbatim>\<open>ready-to-connect\<close> and only when it is the host; a client that
  is not the host handles \<^verbatim>\<open>ready-to-connect\<close> by doing nothing; and no step changes
  \<^verbatim>\<open>isHost\<close>.
\<close>

theorem offer_only_on_ready_to_connect:
  "(CreateOffer \<in> set (snd (client_step stringify parse c ev))
      \<or> EmitOffer rid x \<in> set (snd (client_step stringify parse c ev))
    \<longrightarrow> this_isHost c \<and> (\<exists>offer ok. ev = ReadyToConnectEv offer ok))
 \<and> (\<not> this_isHost c \<longrightarrow> client_step stringify parse c (ReadyToConnectEv offer ok) = (c, []))
 \<and> this_isHost (fst (client_step stringify parse c ev)) = this_isHost c"
  by (cases ev) (auto simp: client_defs Let_def split: option.splits json.splits if_splits)

theorem offer_only_on_ready_to_connect_witness:
  "EmitOffer ''abc123'' ''v=0'' \<in> set (snd (client_step id Some host_client (ReadyToConnectEv (Some ''v=0'') True)))
   \<and> this_isHost host_client
   \<and> \<not> this_isHost guest_client
   \<and> client_step id Some guest_client (ReadyToConnectEv (Some ''v=0'') True) = (guest_client, [])"
  using offer_only_on_ready_to_connect [of id Some host_client "ReadyToConnectEv (Some ''v=0'') True" "''abc123''" "''v=0''"]
    offer_only_on_ready_to_connect [of id Some guest_client "ReadyToConnectEv (Some ''v=0'') True" "''abc123''" "''v=0''" "Some ''v=0''" True]
  by (simp add: host_client_def guest_client_def client_defs)

subsection \<open>The envelopes\<close>

lemma map_of_spread:
  "map_of (fold (\<lambda>p. AList.update (fst p) (snd p)) fs obj) = map_of obj ++ map_of (rev fs)"
proof (induction fs arbitrary: obj)
  case Nil
  then show ?case by simp
next
  case (Cons p fs)
  have "map_of (fold (\<lambda>p. AList.update (fst p) (snd p)) (p # fs) obj)
          = map_of (AList.update (fst p) (snd p) obj) ++ map_of (rev fs)"
    using Cons.IH by simp
  also have "map_of (AList.update (fst p) (snd p) obj) = map_of obj ++ map_of [p]"
    by (cases p) (simp add: update_conv')
  also have "(map_of obj ++ map_of [p]) ++ map_of (rev fs)
          = map_of obj ++ (map_of [p] ++ map_of (rev fs))"
    by (simp only: map_add_assoc)
  also have "map_of [p] ++ map_of (rev fs) = map_of (rev (p # fs))"
    by (simp only: rev.simps map_of_append)
  finally show ?case .
qed

text \<open>
  Claim C7 as stated (the discriminant is named \<^verbatim>\<open>kind\<close>; a player-sync envelope has
  \<^verbatim>\<open>action\<close> at top level) fails: the envelopes of \<^verbatim>\<open>sendMessage\<close> and
  \<^verbatim>\<open>syncPlayer\<close> have no field \<^verbatim>\<open>kind\<close>, and \<^verbatim>\<open>action\<close> is inside \<^verbatim>\<open>data\<close>.
\<close>

theorem envelope_kind_counterexample:
  "sendMessage id host_client ''hi'' ''2024-05-01T10:00:00.000Z''
     = (host_client,
        [Send (JObj [(''type'', JStr ''chat''), (''text'', JStr ''hi''), (''sender'', JStr ''User7''),
                     (''timestamp'', JStr ''2024-05-01T10:00:00.000Z'')])])
   \<and> get_field ''kind''
        (JObj [(''type'', JStr ''chat''), (''text'', JStr ''hi''), (''sender'', JStr ''User7''),
               (''timestamp'', JStr ''2024-05-01T10:00:00.000Z'')]) = None
   \<and> syncPlayer id host_client ''play'' (Some [(''currentTime'', JNum 12), (''videoId'', JStr ''dQw'')])
     = (host_client,
        [Send (JObj [(''type'', JStr ''player-sync''),
                     (''data'', JObj [(''action'', JStr ''play''), (''currentTime'', JNum 12),
                                      (''videoId'', JStr ''dQw'')])])])
   \<and> get_field ''kind''
        (JObj [(''type'', JStr ''player-sync''),
               (''data'', JObj [(''action'', JStr ''play''), (''currentTime'', JNum 12),
                                (''videoId'', JStr ''dQw'')])]) = None
   \<and> get_field ''action''
        (JObj [(''type'', JStr ''player-sync''),
               (''data'', JObj [(''action'', JStr ''play''), (''currentTime'', JNum 12),
                                (''videoId'', JStr ''dQw'')])]) = None"
  by (simp add: host_client_def sendMessage_def syncPlayer_def chat_message_def sync_message_def
        spread_def)

text \<open>
  Claim C7, amended. A client calls \<^verbatim>\<open>dataChannel.send\<close> only in \<^verbatim>\<open>sendMessage\<close> and
  \<^verbatim>\<open>syncPlayer\<close>. The chat envelope is an object with exactly the fields \<^verbatim>\<open>type\<close>
  (\<^verbatim>\<open>"chat"\<close>), \<^verbatim>\<open>text\<close>, \<^verbatim>\<open>sender\<close> and \<^verbatim>\<open>timestamp\<close>; the player-sync envelope
  has exactly \<^verbatim>\<open>type\<close> (\<^verbatim>\<open>"player-sync"\<close>) and \<^verbatim>\<open>data\<close>, an object that holds
  \<^verbatim>\<open>action\<close> and the properties of the caller's \<^verbatim>\<open>data\<close> argument.
\<close>

theorem envelope_type_discriminant:
  "(Send w \<in> set (snd (client_step stringify parse c ev)) \<longrightarrow>
      (\<exists>text ts. ev = SendMessage text ts \<and> w = stringify (chat_message text (this_username c) ts))
    \<or> (\<exists>act d. ev = SyncPlayer act d \<and> w = stringify (sync_message act d)))
 \<and> (\<forall>k. get_field k (chat_message text sender ts)
        = [''type'' \<mapsto> JStr ''chat'', ''text'' \<mapsto> JStr text, ''sender'' \<mapsto> JStr sender,
           ''timestamp'' \<mapsto> JStr ts] k)
 \<and> (\<exists>fs. (\<forall>k. get_field k (sync_message act d)
               = [''type'' \<mapsto> JStr ''player-sync'', ''data'' \<mapsto> JObj fs] k)
        \<and> map_of fs = [''action'' \<mapsto> JStr act]
                        ++ (case d of None \<Rightarrow> Map.empty | Some df \<Rightarrow> map_of (rev df)))"
proof (intro conjI)
  show "Send w \<in> set (snd (client_step stringify parse c ev)) \<longrightarrow>
      (\<exists>text ts. ev = SendMessage text ts \<and> w = stringify (chat_message text (this_username c) ts))
    \<or> (\<exists>act d. ev = SyncPlayer act d \<and> w = stringify (sync_message act d))"
    by (cases ev) (auto simp: client_defs Let_def split: option.splits json.splits if_splits)
  show "\<forall>k. get_field k (chat_message text sender ts)
        = [''type'' \<mapsto> JStr ''chat'', ''text'' \<mapsto> JStr text, ''sender'' \<mapsto> JStr sender,
           ''timestamp'' \<mapsto> JStr ts] k"
    by (simp add: chat_message_def)
  have "map_of (spread [(''action'', JStr act)] d) = [''action'' \<mapsto> JStr act]
                        ++ (case d of None \<Rightarrow> Map.empty | Some df \<Rightarrow> map_of (rev df))"
    by (cases d) (simp_all add: spread_def map_of_spread)
  then show "\<exists>fs. (\<forall>k. get_field k (sync_message act d)
               = [''type'' \<mapsto> JStr ''player-sync'', ''data'' \<mapsto> JObj fs] k)
        \<and> map_of fs = [''action'' \<mapsto> JStr act]
                        ++ (case d of None \<Rightarrow> Map.empty | Some df \<Rightarrow> map_of (rev df))"
    by (intro exI[of _ "spread [(''action'', JStr act)] d"]) (simp add: sync_message_def)
qed

theorem envelope_type_discriminant_witness:
  "Send (chat_message ''hi'' ''User7'' ''2024-05-01T10:00:00.000Z'')
     \<in> set (snd (client_step id Some host_client (SendMessage ''hi'' ''2024-05-01T10:00:00.000Z'')))
 \<and> get_field ''type'' (chat_message ''hi'' ''User7'' ''2024-05-01T10:00:00.000Z'') = Some (JStr ''chat'')
 \<and> get_field ''text'' (chat_message ''hi'' ''User7'' ''2024-05-01T10:00:00.000Z'') = Some (JStr ''hi'')"
  using envelope_type_discriminant [of "chat_message ''hi'' ''User7'' ''2024-05-01T10:00:00.000Z''"
      id Some host_client "SendMessage ''hi'' ''2024-05-01T10:00:00.000Z''"
      "''hi''" "''User7''" "''2024-05-01T10:00:00.000Z''"]
  by (simp add: host_client_def sendMessage_def chat_message_def)

end
